theory Spec2Isabelle
  imports Complex_Main "HOL-Library.Word"
begin

section \<open>Data model\<close>

text \<open>
  A frame is a numpy array of shape (H, W, 3) and dtype uint8: a list of rows, each row a
  list of pixels, each pixel its three channels in the order the source indexes them
  (\<open>[..., 0]\<close> blue, \<open>[..., 1]\<close> green, \<open>[..., 2]\<close> red). A mask is an array of shape
  (H, W) and dtype float32. float32 arithmetic is idealised as exact arithmetic on
  \<^typ>\<open>real\<close>; the cast back to uint8 is modelled with its truncation and its
  wrap-around.
\<close>

type_synonym u8 = "8 word"
type_synonym 'a px = "'a \<times> 'a \<times> 'a"
type_synonym 'a img = "'a px list list"
type_synonym mask = "real list list"

fun ch0 :: "'a px \<Rightarrow> 'a" where "ch0 (b, g, r) = b"
fun ch1 :: "'a px \<Rightarrow> 'a" where "ch1 (b, g, r) = g"
fun ch2 :: "'a px \<Rightarrow> 'a" where "ch2 (b, g, r) = r"

fun px_map :: "('a \<Rightarrow> 'b) \<Rightarrow> 'a px \<Rightarrow> 'b px" where
  "px_map f (b, g, r) = (f b, f g, f r)"

fun px_map2 :: "('a \<Rightarrow> 'b \<Rightarrow> 'c) \<Rightarrow> 'a px \<Rightarrow> 'b px \<Rightarrow> 'c px" where
  "px_map2 f (b, g, r) (b', g', r') = (f b b', f g g', f r r')"

text \<open>The only exception the array arithmetic of the function can raise: numpy's
  "operands could not be broadcast together".\<close>

datatype error = ValueError

text \<open>\<open>rect H W a\<close>: the nested list \<open>a\<close> is a well-formed array of H rows and W columns.\<close>

definition rect :: "nat \<Rightarrow> nat \<Rightarrow> 'a list list \<Rightarrow> bool" where
  "rect H W a = (length a = H \<and> list_all (\<lambda>r. length r = W) a)"

definition shape :: "'a list list \<Rightarrow> nat \<times> nat" where
  "shape a = (length a, case a of [] \<Rightarrow> 0 | r # _ \<Rightarrow> length r)"

section \<open>numpy: elementwise operations and broadcasting\<close>

definition ew1 :: "('a \<Rightarrow> 'b) \<Rightarrow> 'a list list \<Rightarrow> 'b list list" where
  "ew1 f a = map (map f) a"

definition ew2 :: "('a \<Rightarrow> 'b \<Rightarrow> 'c) \<Rightarrow> 'a list list \<Rightarrow> 'b list list \<Rightarrow> 'c list list" where
  "ew2 f a b = map2 (map2 f) a b"

definition broadcast_dim :: "nat \<Rightarrow> nat \<Rightarrow> error + nat" where
  "broadcast_dim m n =
     (if m = n then Inr m else if m = 1 then Inr n else if n = 1 then Inr m else Inl ValueError)"

definition broadcast_shapes :: "nat \<times> nat \<Rightarrow> nat \<times> nat \<Rightarrow> error + nat \<times> nat" where
  "broadcast_shapes s t =
     (case broadcast_dim (fst s) (fst t) of
        Inl e \<Rightarrow> Inl e
      | Inr h \<Rightarrow> (case broadcast_dim (snd s) (snd t) of
                    Inl e \<Rightarrow> Inl e
                  | Inr w \<Rightarrow> Inr (h, w)))"

definition stretch :: "nat \<Rightarrow> 'a list \<Rightarrow> 'a list" where
  "stretch n xs = (case xs of [x] \<Rightarrow> replicate n x | _ \<Rightarrow> xs)"

definition broadcast_to :: "nat \<times> nat \<Rightarrow> 'a list list \<Rightarrow> 'a list list" where
  "broadcast_to s a = stretch (fst s) (map (stretch (snd s)) a)"

definition np_binop ::
  "('a \<Rightarrow> 'b \<Rightarrow> 'c) \<Rightarrow> 'a list list \<Rightarrow> 'b list list \<Rightarrow> error + 'c list list" where
  "np_binop f a b =
     (case broadcast_shapes (shape a) (shape b) of
        Inl e \<Rightarrow> Inl e
      | Inr s \<Rightarrow> Inr (ew2 f (broadcast_to s a) (broadcast_to s b)))"

text \<open>\<open>astype(np.float32)\<close> of a uint8 array, and \<open>astype(np.uint8)\<close> of a float32 array:
  the fraction is dropped towards zero and the integer is reduced modulo 256.\<close>

definition f32_of_u8 :: "u8 \<Rightarrow> real" where
  "f32_of_u8 v = real (unat v)"

definition trunc :: "real \<Rightarrow> int" where
  "trunc x = (if 0 \<le> x then \<lfloor>x\<rfloor> else \<lceil>x\<rceil>)"

definition u8_of_f32 :: "real \<Rightarrow> u8" where
  "u8_of_f32 x = word_of_int (trunc x)"

definition astype_f32 :: "u8 img \<Rightarrow> real img" where
  "astype_f32 a = ew1 (px_map f32_of_u8) a"

definition astype_u8 :: "real img \<Rightarrow> u8 img" where
  "astype_u8 a = ew1 (px_map u8_of_f32) a"

definition np_clip :: "mask \<Rightarrow> real \<Rightarrow> real \<Rightarrow> mask" where
  "np_clip m lo hi = ew1 (\<lambda>x. min (max x lo) hi) m"

section \<open>OpenCV: the calls of the function\<close>

text \<open>
  \<open>cv2.cvtColor(frame, cv2.COLOR_BGR2HSV)\<close> converts every pixel on its own; the conversion
  of one pixel is the parameter \<open>cvt\<close>. \<open>cv2.GaussianBlur(mask, (k, k), 0)\<close> returns an
  array of the shape of its input; the value it computes at row i and column j is the
  parameter \<open>blur_at k mask i j\<close>. Both calls are taken to succeed.
\<close>

definition cvtColor :: "(u8 px \<Rightarrow> u8 px) \<Rightarrow> u8 img \<Rightarrow> u8 img" where
  "cvtColor cvt frame = ew1 cvt frame"

definition inRange_px :: "u8 px \<Rightarrow> int px \<Rightarrow> int px \<Rightarrow> u8" where
  "inRange_px p lo hi =
     (if ch0 lo \<le> uint (ch0 p) \<and> uint (ch0 p) \<le> ch0 hi
       \<and> ch1 lo \<le> uint (ch1 p) \<and> uint (ch1 p) \<le> ch1 hi
       \<and> ch2 lo \<le> uint (ch2 p) \<and> uint (ch2 p) \<le> ch2 hi
      then 255 else 0)"

definition inRange :: "u8 img \<Rightarrow> int px \<Rightarrow> int px \<Rightarrow> u8 list list" where
  "inRange hsv lo hi = ew1 (\<lambda>p. inRange_px p lo hi) hsv"

definition GaussianBlur ::
  "(int \<Rightarrow> mask \<Rightarrow> nat \<Rightarrow> nat \<Rightarrow> real) \<Rightarrow> mask \<Rightarrow> int \<Rightarrow> mask" where
  "GaussianBlur blur_at m k =
     map (\<lambda>i. map (\<lambda>j. blur_at k m i j) [0..<length (m ! i)]) [0..<length m]"

text \<open>
  Erosion and dilation take, at every pixel, the minimum and the maximum over the pixels
  under the non-zero entries of the kernel, the kernel centred on the pixel. Positions
  outside the array do not count: the default border is a constant that is the largest
  float for erosion and the smallest for dilation.
\<close>

definition FLT_MAX :: real where
  "FLT_MAX = (2 - 1 / 2 ^ 23) * 2 ^ 127"

definition kernel_offsets :: "u8 list list \<Rightarrow> (int \<times> int) list" where
  "kernel_offsets k =
     concat (map (\<lambda>r. concat (map (\<lambda>c.
        if k ! r ! c \<noteq> 0
        then [(int r - int (length k div 2), int c - int (length (k ! r) div 2))]
        else []) [0..<length (k ! r)])) [0..<length k])"

definition window :: "mask \<Rightarrow> (int \<times> int) list \<Rightarrow> nat \<Rightarrow> nat \<Rightarrow> real list" where
  "window m offs i j =
     concat (map (\<lambda>(di, dj).
        if 0 \<le> int i + di \<and> int i + di < int (length m)
         \<and> 0 \<le> int j + dj \<and> int j + dj < int (length (m ! i))
        then [m ! nat (int i + di) ! nat (int j + dj)]
        else []) offs)"

definition erode_pass :: "u8 list list \<Rightarrow> mask \<Rightarrow> mask" where
  "erode_pass k m =
     map (\<lambda>i. map (\<lambda>j. fold min (window m (kernel_offsets k) i j) FLT_MAX)
                 [0..<length (m ! i)]) [0..<length m]"

definition dilate_pass :: "u8 list list \<Rightarrow> mask \<Rightarrow> mask" where
  "dilate_pass k m =
     map (\<lambda>i. map (\<lambda>j. fold max (window m (kernel_offsets k) i j) (- FLT_MAX))
                 [0..<length (m ! i)]) [0..<length m]"

definition erode :: "mask \<Rightarrow> u8 list list \<Rightarrow> nat \<Rightarrow> mask" where
  "erode m k iterations = (erode_pass k ^^ iterations) m"

definition dilate :: "mask \<Rightarrow> u8 list list \<Rightarrow> nat \<Rightarrow> mask" where
  "dilate m k iterations = (dilate_pass k ^^ iterations) m"

definition np_ones :: "nat \<Rightarrow> nat \<Rightarrow> u8 list list" where
  "np_ones rows cols = replicate rows (replicate cols 1)"

section \<open>advanced\_chroma\_key\<close>

text \<open>Lines 37 to 39: the thresholded mask, scaled by 1/255.\<close>

definition binary_mask :: "(u8 px \<Rightarrow> u8 px) \<Rightarrow> u8 img \<Rightarrow> int px \<Rightarrow> int px \<Rightarrow> mask" where
  "binary_mask cvt frame green_lower green_upper =
     ew1 (\<lambda>v. f32_of_u8 v / 255) (inRange (cvtColor cvt frame) green_lower green_upper)"

text \<open>Lines 40 and 41: the blur and the clip.\<close>

definition feathered_mask ::
  "(u8 px \<Rightarrow> u8 px) \<Rightarrow> (int \<Rightarrow> mask \<Rightarrow> nat \<Rightarrow> nat \<Rightarrow> real) \<Rightarrow> u8 img \<Rightarrow> int px \<Rightarrow> int px \<Rightarrow> int
    \<Rightarrow> mask" where
  "feathered_mask cvt blur_at frame green_lower green_upper feather_radius =
     np_clip (GaussianBlur blur_at (binary_mask cvt frame green_lower green_upper)
                feather_radius) 0 1"

text \<open>Lines 43 to 45: the morphological cleanup.\<close>

definition kernel :: "u8 list list" where
  "kernel = np_ones 3 3"

definition morph_cleanup :: "mask \<Rightarrow> mask" where
  "morph_cleanup m = dilate (erode m kernel 1) kernel 2"

definition soft_mask ::
  "(u8 px \<Rightarrow> u8 px) \<Rightarrow> (int \<Rightarrow> mask \<Rightarrow> nat \<Rightarrow> nat \<Rightarrow> real) \<Rightarrow> u8 img \<Rightarrow> int px \<Rightarrow> int px \<Rightarrow> int
    \<Rightarrow> mask" where
  "soft_mask cvt blur_at frame green_lower green_upper feather_radius =
     morph_cleanup (feathered_mask cvt blur_at frame green_lower green_upper feather_radius)"

text \<open>Lines 48 to 51, on the float copy of the frame: \<open>green\<close> and \<open>red_blue\<close>, the
  boolean \<open>spill_mask\<close>, and the assignment to the green channel under that mask.\<close>

definition spill_mask :: "real img \<Rightarrow> mask \<Rightarrow> bool list list" where
  "spill_mask fns m =
     ew2 (\<and>) (ew2 (\<lambda>g rb. g > rb) (ew1 ch1 fns) (ew2 (\<lambda>b r. (b + r) / 2) (ew1 ch0 fns) (ew1 ch2 fns)))
             (ew1 (\<lambda>x. x > 5 / 100) m)"

definition spill_value :: "real img \<Rightarrow> real \<Rightarrow> mask" where
  "spill_value fns spill_suppress =
     ew2 (\<lambda>rb g. rb * (1 - spill_suppress) + g * spill_suppress)
         (ew2 (\<lambda>b r. (b + r) / 2) (ew1 ch0 fns) (ew1 ch2 fns)) (ew1 ch1 fns)"

definition assign_green :: "real img \<Rightarrow> bool list list \<Rightarrow> mask \<Rightarrow> real img" where
  "assign_green fns sel v =
     ew2 (\<lambda>p (c, x). if c then (ch0 p, x, ch2 p) else p) fns (ew2 Pair sel v)"

definition decontaminate :: "real img \<Rightarrow> mask \<Rightarrow> real \<Rightarrow> real img" where
  "decontaminate fns m spill_suppress =
     assign_green fns (spill_mask fns m) (spill_value fns spill_suppress)"

text \<open>Lines 53 to 55: the blend and the cast. The product of the background with the
  mask, and the sum, broadcast their operands.\<close>

definition blend_f32 :: "real img \<Rightarrow> real img \<Rightarrow> mask \<Rightarrow> error + real img" where
  "blend_f32 fns bgf m =
     (let mask_3c = ew1 (\<lambda>x. (x, x, x)) m;
          fg = ew2 (px_map2 (*)) fns (ew1 (px_map (\<lambda>x. 1 - x)) mask_3c)
      in case np_binop (px_map2 (*)) bgf mask_3c of
           Inl e \<Rightarrow> Inl e
         | Inr bgm \<Rightarrow> np_binop (px_map2 (+)) fg bgm)"

definition alpha_blend :: "real img \<Rightarrow> real img \<Rightarrow> mask \<Rightarrow> error + u8 img" where
  "alpha_blend fns bgf m =
     (case blend_f32 fns bgf m of
        Inl e \<Rightarrow> Inl e
      | Inr result \<Rightarrow> Inr (astype_u8 result))"

definition advanced_chroma_key ::
  "(u8 px \<Rightarrow> u8 px) \<Rightarrow> (int \<Rightarrow> mask \<Rightarrow> nat \<Rightarrow> nat \<Rightarrow> real) \<Rightarrow> u8 img \<Rightarrow> u8 img \<Rightarrow> int px \<Rightarrow> int px
    \<Rightarrow> int \<Rightarrow> real \<Rightarrow> error + u8 img" where
  "advanced_chroma_key cvt blur_at frame bg green_lower green_upper feather_radius spill_suppress =
     (let m = soft_mask cvt blur_at frame green_lower green_upper feather_radius;
          frame_no_spill = decontaminate (astype_f32 frame) m spill_suppress
      in alpha_blend frame_no_spill (astype_f32 bg) m)"

section \<open>The arrays as objects: who is written to\<close>

text \<open>
  The function receives references to two arrays. \<open>frame.copy().astype(np.float32)\<close> and
  \<open>result.astype(np.uint8)\<close> allocate new arrays; the assignment of line 51 writes into the
  float copy in place (through the view \<open>frame_no_spill[..., 1]\<close>). The arrays that hold the
  HSV image, the masks and the other temporaries are new objects that nothing else refers
  to, and are kept as values. A heap maps references to arrays; \<open>next_ref\<close> is the first
  reference not allocated yet.
\<close>

datatype ndarray = U8 "u8 img" | F32 "real img"

record heap =
  cells :: "nat \<Rightarrow> ndarray option"
  next_ref :: nat

definition alloc :: "ndarray \<Rightarrow> heap \<Rightarrow> nat \<times> heap" where
  "alloc a h = (next_ref h, h\<lparr>cells := (cells h)(next_ref h \<mapsto> a), next_ref := Suc (next_ref h)\<rparr>)"

definition put :: "nat \<Rightarrow> ndarray \<Rightarrow> heap \<Rightarrow> heap" where
  "put r a h = h\<lparr>cells := (cells h)(r \<mapsto> a)\<rparr>"

definition get_u8 :: "heap \<Rightarrow> nat \<Rightarrow> u8 img" where
  "get_u8 h r = (case cells h r of Some (U8 a) \<Rightarrow> a | _ \<Rightarrow> [])"

definition get_f32 :: "heap \<Rightarrow> nat \<Rightarrow> real img" where
  "get_f32 h r = (case cells h r of Some (F32 a) \<Rightarrow> a | _ \<Rightarrow> [])"

definition advanced_chroma_key_heap ::
  "(u8 px \<Rightarrow> u8 px) \<Rightarrow> (int \<Rightarrow> mask \<Rightarrow> nat \<Rightarrow> nat \<Rightarrow> real) \<Rightarrow> heap \<Rightarrow> nat \<Rightarrow> nat \<Rightarrow> int px \<Rightarrow> int px
    \<Rightarrow> int \<Rightarrow> real \<Rightarrow> (error + nat) \<times> heap" where
  "advanced_chroma_key_heap cvt blur_at h frame bg green_lower green_upper feather_radius
       spill_suppress =
     (let m = soft_mask cvt blur_at (get_u8 h frame) green_lower green_upper feather_radius;
          (frame_no_spill, h1) = alloc (F32 (astype_f32 (get_u8 h frame))) h;
          fns = get_f32 h1 frame_no_spill;
          h2 = put frame_no_spill
                 (F32 (assign_green fns (spill_mask fns m) (spill_value fns spill_suppress))) h1
      in case alpha_blend (get_f32 h2 frame_no_spill) (astype_f32 (get_u8 h2 bg)) m of
           Inl e \<Rightarrow> (Inl e, h2)
         | Inr result \<Rightarrow> (let (res, h3) = alloc (U8 result) h2 in (Inr res, h3)))"

text \<open>What a caller observes of a call: the exception, or the array behind the returned
  reference.\<close>

definition outcome :: "(error + nat) \<times> heap \<Rightarrow> error + ndarray option" where
  "outcome c = (case fst c of Inl e \<Rightarrow> Inl e | Inr r \<Rightarrow> Inr (cells (snd c) r))"

section \<open>An instance of the two OpenCV parameters, for the examples\<close>

text \<open>
  The examples below run the function with the conversion of the OpenCV documentation for
  8-bit images (V the maximum of the channels, S = 255 (V - min) / V, H half the hue angle
  in degrees, each rounded to the nearest integer), and with the blur for the kernel sizes
  1 (the array itself) and 3 (the taps 1/4, 1/2, 1/4 in both directions, the border
  mirrored without repeating the edge pixel).
\<close>

definition bgr2hsv :: "u8 px \<Rightarrow> u8 px" where
  "bgr2hsv p =
     (let b = uint (ch0 p); g = uint (ch1 p); r = uint (ch2 p);
          v = max b (max g r);
          d = v - min b (min g r);
          s = (if v = 0 then 0 else (2 * 255 * d + v) div (2 * v));
          a = (if v = r then g - b else if v = g then b - r + 2 * d else r - g + 4 * d);
          h = (if d = 0 then 0 else (2 * 30 * a + d) div (2 * d))
      in (word_of_int (if h < 0 then h + 180 else h), word_of_int s, word_of_int v))"

definition reflect101 :: "nat \<Rightarrow> int \<Rightarrow> nat" where
  "reflect101 n p =
     (if n \<le> 1 then 0
      else if p < 0 then nat (- p)
      else if int n \<le> p then nat (2 * int n - 2 - p)
      else nat p)"

definition gaussian_taps :: "int \<Rightarrow> (int \<times> real) list" where
  "gaussian_taps k = (if k = 3 then [(- 1, 1 / 4), (0, 1 / 2), (1, 1 / 4)] else [(0, 1)])"

definition gauss_blur_at :: "int \<Rightarrow> mask \<Rightarrow> nat \<Rightarrow> nat \<Rightarrow> real" where
  "gauss_blur_at k m i j =
     sum_list (map (\<lambda>(di, wi). sum_list (map (\<lambda>(dj, wj).
        wi * wj * m ! reflect101 (length m) (int i + di)
                    ! reflect101 (length (m ! i)) (int j + dj))
        (gaussian_taps k))) (gaussian_taps k))"

text \<open>The key range of the script: \<open>GREEN_LOWER\<close> and \<open>GREEN_UPPER\<close>.\<close>

definition GREEN_LOWER :: "int px" where
  "GREEN_LOWER = (40, 100, 50)"

definition GREEN_UPPER :: "int px" where
  "GREEN_UPPER = (80, 255, 255)"

text \<open>The inputs of the examples: a frame of one row with a key-green pixel and two dark
  green pixels, a black background of the same shape, a frame of a single red pixel, a frame
  of two key-green pixels in a row, and a background of a single pixel.\<close>

definition frame_ex :: "u8 img" where
  "frame_ex = [[(0, 255, 0), (0, 40, 0), (0, 40, 0)]]"

definition bg_ex :: "u8 img" where
  "bg_ex = [[(0, 0, 0), (0, 0, 0), (0, 0, 0)]]"

definition frame_red :: "u8 img" where
  "frame_red = [[(0, 0, 255)]]"

definition frame_green2 :: "u8 img" where
  "frame_green2 = [[(0, 255, 0), (0, 255, 0)]]"

definition bg_one :: "u8 img" where
  "bg_one = [[(7, 8, 9)]]"

text \<open>Two heaps for the examples. They hold the same frame and the same background at
  different references.\<close>

definition heap_ex :: heap where
  "heap_ex = \<lparr>cells = Map.empty(0 \<mapsto> U8 frame_ex, 1 \<mapsto> U8 bg_ex, 2 \<mapsto> U8 frame_green2),
               next_ref = 3\<rparr>"

definition heap_ex2 :: heap where
  "heap_ex2 = \<lparr>cells = Map.empty(0 \<mapsto> U8 bg_ex, 4 \<mapsto> U8 frame_ex), next_ref = 5\<rparr>"

section \<open>Shapes and ranges of the intermediate arrays\<close>





lemma rectI: "length a = H \<Longrightarrow> (\<And>i. i < H \<Longrightarrow> length (a ! i) = W) \<Longrightarrow> rect H W a"
  by (simp add: rect_def list_all_length)

lemma rect_ew1: "rect H W a \<Longrightarrow> rect H W (ew1 f a)"
  by (simp add: rect_def ew1_def list_all_length)

lemma nth_ew1: "rect H W a \<Longrightarrow> i < H \<Longrightarrow> j < W \<Longrightarrow> ew1 f a ! i ! j = f (a ! i ! j)"
  by (simp add: rect_def ew1_def list_all_length)

lemma rect_ew2: "rect H W a \<Longrightarrow> rect H W b \<Longrightarrow> rect H W (ew2 f a b)"
  by (simp add: rect_def ew2_def list_all_length)

lemma nth_ew2:
  "rect H W a \<Longrightarrow> rect H W b \<Longrightarrow> i < H \<Longrightarrow> j < W \<Longrightarrow> ew2 f a b ! i ! j = f (a ! i ! j) (b ! i ! j)"
  by (simp add: rect_def ew2_def list_all_length)

lemma rect_GaussianBlur: "rect H W m \<Longrightarrow> rect H W (GaussianBlur blur_at m k)"
  by (simp add: rect_def GaussianBlur_def list_all_length)

lemma nth_GaussianBlur:
  "rect H W m \<Longrightarrow> i < H \<Longrightarrow> j < W \<Longrightarrow> GaussianBlur blur_at m k ! i ! j = blur_at k m i j"
  by (simp add: rect_def GaussianBlur_def list_all_length)

lemma rect_erode_pass: "rect H W m \<Longrightarrow> rect H W (erode_pass k m)"
  by (simp add: rect_def erode_pass_def list_all_length)

lemma rect_dilate_pass: "rect H W m \<Longrightarrow> rect H W (dilate_pass k m)"
  by (simp add: rect_def dilate_pass_def list_all_length)



lemma morph_cleanup_unfold:
  "morph_cleanup m = dilate_pass kernel (dilate_pass kernel (erode_pass kernel m))"
  by (simp add: morph_cleanup_def erode_def dilate_def numeral_2_eq_2)

lemma kernel_offsets_kernel:
  "kernel_offsets kernel = [(-1,-1),(-1,0),(-1,1),(0,-1),(0,0),(0,1),(1,-1),(1,0),(1,1)]"
  by (simp add: kernel_offsets_def kernel_def np_ones_def numeral_3_eq_3 upt_rec)

lemma rect_morph_cleanup: "rect H W m \<Longrightarrow> rect H W (morph_cleanup m)"
  by (simp add: morph_cleanup_unfold rect_erode_pass rect_dilate_pass)

lemma rect_binary_mask: "rect H W frame \<Longrightarrow> rect H W (binary_mask cvt frame lo hi)"
  by (simp add: binary_mask_def inRange_def cvtColor_def rect_ew1)

lemma rect_feathered_mask: "rect H W frame \<Longrightarrow> rect H W (feathered_mask cvt blur_at frame lo hi k)"
  by (simp add: feathered_mask_def np_clip_def rect_ew1 rect_GaussianBlur rect_binary_mask)

lemma rect_soft_mask: "rect H W frame \<Longrightarrow> rect H W (soft_mask cvt blur_at frame lo hi k)"
  by (simp add: soft_mask_def rect_morph_cleanup rect_feathered_mask)


lemma f32_of_u8_uint: "f32_of_u8 v = of_int (uint v)"
  by (simp add: f32_of_u8_def)

lemma trunc_of_int: "trunc (of_int k) = k"
  by (simp add: trunc_def)

lemma u8_roundtrip: "u8_of_f32 (f32_of_u8 v) = v"
  by (simp only: u8_of_f32_def f32_of_u8_uint trunc_of_int word_of_int_uint)




lemma decontaminate_nth:
  assumes "rect H W fns" "rect H W m" "i < H" "j < W"
  shows "decontaminate fns m s ! i ! j =
     (if ch1 (fns ! i ! j) > (ch0 (fns ! i ! j) + ch2 (fns ! i ! j)) / 2 \<and> m ! i ! j > 5 / 100
      then (ch0 (fns ! i ! j),
            (ch0 (fns ! i ! j) + ch2 (fns ! i ! j)) / 2 * (1 - s) + ch1 (fns ! i ! j) * s,
            ch2 (fns ! i ! j))
      else fns ! i ! j)"
proof -
  note n1 = nth_ew1 [where H = H and W = W and i = i and j = j]
  note n2 = nth_ew2 [where H = H and W = W and i = i and j = j]
  have rb: "rect H W (ew2 (\<lambda>b r. (b + r) / 2) (ew1 ch0 fns) (ew1 ch2 fns))"
    using assms by (simp add: rect_ew1 rect_ew2)
  have rbv: "ew2 (\<lambda>b r. (b + r) / 2) (ew1 ch0 fns) (ew1 ch2 fns) ! i ! j
      = (ch0 (fns ! i ! j) + ch2 (fns ! i ! j)) / 2"
    using assms by (simp add: n1 n2 rect_ew1)
  have gt: "rect H W (ew2 (\<lambda>g rb. g > rb) (ew1 ch1 fns)
      (ew2 (\<lambda>b r. (b + r) / 2) (ew1 ch0 fns) (ew1 ch2 fns)))"
    using assms rb by (simp add: rect_ew1 rect_ew2)
  have sm: "rect H W (spill_mask fns m)"
    unfolding spill_mask_def using assms gt by (simp add: rect_ew1 rect_ew2)
  have smv: "spill_mask fns m ! i ! j =
      (ch1 (fns ! i ! j) > (ch0 (fns ! i ! j) + ch2 (fns ! i ! j)) / 2 \<and> m ! i ! j > 5 / 100)"
    unfolding spill_mask_def using assms gt rb rbv by (simp add: n1 n2 rect_ew1)
  have sv: "rect H W (spill_value fns s)"
    unfolding spill_value_def using assms rb by (simp add: rect_ew1 rect_ew2)
  have svv: "spill_value fns s ! i ! j =
      (ch0 (fns ! i ! j) + ch2 (fns ! i ! j)) / 2 * (1 - s) + ch1 (fns ! i ! j) * s"
    unfolding spill_value_def using assms rb rbv by (simp add: n1 n2 rect_ew1)
  have pr: "rect H W (ew2 Pair (spill_mask fns m) (spill_value fns s))"
    using sm sv by (simp add: rect_ew2)
  have prv: "ew2 Pair (spill_mask fns m) (spill_value fns s) ! i ! j
      = (spill_mask fns m ! i ! j, spill_value fns s ! i ! j)"
    using sm sv assms by (simp add: n2)
  show ?thesis
    unfolding decontaminate_def assign_green_def
    using assms pr by (simp add: n2 prv smv svv)
qed

lemma rect_decontaminate: "rect H W fns \<Longrightarrow> rect H W m \<Longrightarrow> rect H W (decontaminate fns m s)"
  by (simp add: decontaminate_def assign_green_def spill_mask_def spill_value_def rect_ew1 rect_ew2)

lemma stretch_same: "length xs = n \<Longrightarrow> stretch n xs = xs"
  by (cases xs rule: list.exhaust; cases "tl xs") (auto simp: stretch_def split: list.splits)

lemma shape_rect: "rect H W a \<Longrightarrow> 0 < H \<Longrightarrow> shape a = (H, W)"
  by (cases a) (auto simp: rect_def shape_def)

lemma broadcast_to_rect: "rect H W a \<Longrightarrow> broadcast_to (H, W) a = a"
  by (simp add: broadcast_to_def rect_def stretch_same list_all_iff map_idI)

lemma np_binop_same: 
  assumes "rect H W a" "rect H W b"
  shows "np_binop f a b = Inr (ew2 f a b)"
proof (cases "H = 0")
  case True
  then have "a = []" "b = []" using assms by (simp_all add: rect_def)
  then show ?thesis
    by (simp add: np_binop_def shape_def broadcast_shapes_def broadcast_dim_def
        broadcast_to_def stretch_def ew2_def)
next
  case False
  then have "shape a = (H, W)" "shape b = (H, W)" using assms by (simp_all add: shape_rect)
  then show ?thesis using assms
    by (simp add: np_binop_def broadcast_shapes_def broadcast_dim_def broadcast_to_rect)
qed

lemma blend_f32_same:
  assumes "rect H W fns" "rect H W bgf" "rect H W m"
  shows "blend_f32 fns bgf m =
     Inr (ew2 (px_map2 (+))
            (ew2 (px_map2 (*)) fns (ew1 (px_map (\<lambda>x. 1 - x)) (ew1 (\<lambda>x. (x, x, x)) m)))
            (ew2 (px_map2 (*)) bgf (ew1 (\<lambda>x. (x, x, x)) m)))"
  using assms
  by (simp add: blend_f32_def Let_def np_binop_same [where H = H and W = W] rect_ew1 rect_ew2)

lemma blend_f32_nth:
  assumes "rect H W fns" "rect H W bgf" "rect H W m" "i < H" "j < W"
  shows "\<exists>res. blend_f32 fns bgf m = Inr res \<and> rect H W res \<and>
     res ! i ! j =
       (ch0 (fns ! i ! j) * (1 - m ! i ! j) + ch0 (bgf ! i ! j) * (m ! i ! j),
        ch1 (fns ! i ! j) * (1 - m ! i ! j) + ch1 (bgf ! i ! j) * (m ! i ! j),
        ch2 (fns ! i ! j) * (1 - m ! i ! j) + ch2 (bgf ! i ! j) * (m ! i ! j))"
proof -
  note n1 = nth_ew1 [where H = H and W = W and i = i and j = j]
  note n2 = nth_ew2 [where H = H and W = W and i = i and j = j]
  let ?m3 = "ew1 (\<lambda>x. (x, x, x)) m"
  let ?om = "ew1 (px_map (\<lambda>x. 1 - x)) ?m3"
  let ?fg = "ew2 (px_map2 (*)) fns ?om"
  let ?bg = "ew2 (px_map2 (*)) bgf ?m3"
  obtain b g r where p: "fns ! i ! j = (b, g, r)" by (cases "fns ! i ! j")
  obtain b' g' r' where q: "bgf ! i ! j = (b', g', r')" by (cases "bgf ! i ! j")
  have r3: "rect H W ?m3" using assms by (simp add: rect_ew1)
  have v3: "?m3 ! i ! j = (m ! i ! j, m ! i ! j, m ! i ! j)" using assms by (simp add: n1)
  have ro: "rect H W ?om" using r3 by (simp add: rect_ew1)
  have vo: "?om ! i ! j = (1 - m ! i ! j, 1 - m ! i ! j, 1 - m ! i ! j)"
    using r3 assms by (simp add: n1 v3)
  have rf: "rect H W ?fg" using assms ro by (simp add: rect_ew2)
  have vf: "?fg ! i ! j = (b * (1 - m ! i ! j), g * (1 - m ! i ! j), r * (1 - m ! i ! j))"
    using assms ro by (simp add: n2 vo p)
  have rg: "rect H W ?bg" using assms r3 by (simp add: rect_ew2)
  have vg: "?bg ! i ! j = (b' * (m ! i ! j), g' * (m ! i ! j), r' * (m ! i ! j))"
    using assms r3 by (simp add: n2 v3 q)
  have rr: "rect H W (ew2 (px_map2 (+)) ?fg ?bg)" using rf rg by (simp add: rect_ew2)
  have vr: "ew2 (px_map2 (+)) ?fg ?bg ! i ! j =
      (b * (1 - m ! i ! j) + b' * (m ! i ! j), g * (1 - m ! i ! j) + g' * (m ! i ! j),
       r * (1 - m ! i ! j) + r' * (m ! i ! j))"
    using assms rf rg by (simp add: n2 vf vg)
  have "blend_f32 fns bgf m = Inr (ew2 (px_map2 (+)) ?fg ?bg)"
    using assms(1-3) by (rule blend_f32_same)
  then show ?thesis using rr vr p q by simp
qed


lemma binary_mask_nth:
  assumes "rect H W frame" "i < H" "j < W"
  shows "binary_mask cvt frame lo hi ! i ! j =
     (if inRange_px (cvt (frame ! i ! j)) lo hi = 255 then 1 else 0)"
proof -
  note n1 = nth_ew1 [where H = H and W = W and i = i and j = j]
  have a: "cvtColor cvt frame ! i ! j = cvt (frame ! i ! j)"
    using assms by (simp add: cvtColor_def n1)
  have ra: "rect H W (cvtColor cvt frame)" using assms by (simp add: cvtColor_def rect_ew1)
  have b: "inRange (cvtColor cvt frame) lo hi ! i ! j = inRange_px (cvt (frame ! i ! j)) lo hi"
    using ra assms by (simp add: inRange_def n1 a)
  have rb: "rect H W (inRange (cvtColor cvt frame) lo hi)"
    using ra by (simp add: inRange_def rect_ew1)
  have "binary_mask cvt frame lo hi ! i ! j = f32_of_u8 (inRange_px (cvt (frame ! i ! j)) lo hi) / 255"
    using rb assms by (simp add: binary_mask_def n1 b)
  then show ?thesis by (simp only:) (simp add: inRange_px_def f32_of_u8_def)
qed



















lemma rect_astype_f32: "rect H W a \<Longrightarrow> rect H W (astype_f32 a)"
  by (simp add: astype_f32_def rect_ew1)

lemma astype_f32_nth:
  "rect H W a \<Longrightarrow> i < H \<Longrightarrow> j < W \<Longrightarrow> astype_f32 a ! i ! j = px_map f32_of_u8 (a ! i ! j)"
  by (simp add: astype_f32_def nth_ew1 [where H = H and W = W])

lemma ack_nth:
  assumes "rect H W frame" "rect H W bg" "i < H" "j < W"
  shows "\<exists>out. advanced_chroma_key cvt blur_at frame bg lo hi k s = Inr out \<and> rect H W out \<and>
     out ! i ! j =
      (u8_of_f32
        (ch0 (decontaminate (astype_f32 frame) (soft_mask cvt blur_at frame lo hi k) s ! i ! j)
            * (1 - soft_mask cvt blur_at frame lo hi k ! i ! j)
          + f32_of_u8 (ch0 (bg ! i ! j)) * (soft_mask cvt blur_at frame lo hi k ! i ! j)),
       u8_of_f32
        (ch1 (decontaminate (astype_f32 frame) (soft_mask cvt blur_at frame lo hi k) s ! i ! j)
            * (1 - soft_mask cvt blur_at frame lo hi k ! i ! j)
          + f32_of_u8 (ch1 (bg ! i ! j)) * (soft_mask cvt blur_at frame lo hi k ! i ! j)),
       u8_of_f32
        (ch2 (decontaminate (astype_f32 frame) (soft_mask cvt blur_at frame lo hi k) s ! i ! j)
            * (1 - soft_mask cvt blur_at frame lo hi k ! i ! j)
          + f32_of_u8 (ch2 (bg ! i ! j)) * (soft_mask cvt blur_at frame lo hi k ! i ! j)))"
proof -
  let ?m = "soft_mask cvt blur_at frame lo hi k"
  let ?fns = "decontaminate (astype_f32 frame) ?m s"
  have rm: "rect H W ?m" using assms by (simp add: rect_soft_mask)
  have rf: "rect H W ?fns" using assms rm by (simp add: rect_decontaminate rect_astype_f32)
  have rb: "rect H W (astype_f32 bg)" using assms by (simp add: rect_astype_f32)
  obtain res where res: "blend_f32 ?fns (astype_f32 bg) ?m = Inr res" "rect H W res"
    "res ! i ! j =
       (ch0 (?fns ! i ! j) * (1 - ?m ! i ! j) + ch0 (astype_f32 bg ! i ! j) * (?m ! i ! j),
        ch1 (?fns ! i ! j) * (1 - ?m ! i ! j) + ch1 (astype_f32 bg ! i ! j) * (?m ! i ! j),
        ch2 (?fns ! i ! j) * (1 - ?m ! i ! j) + ch2 (astype_f32 bg ! i ! j) * (?m ! i ! j))"
    using blend_f32_nth [OF rf rb rm assms(3,4)] by blast
  obtain b g r where q: "bg ! i ! j = (b, g, r)" by (cases "bg ! i ! j")
  have bgv: "astype_f32 bg ! i ! j = (f32_of_u8 b, f32_of_u8 g, f32_of_u8 r)"
    using assms q by (simp add: astype_f32_nth [where H = H and W = W])
  have out: "advanced_chroma_key cvt blur_at frame bg lo hi k s = Inr (astype_u8 res)"
    using res(1) by (simp add: advanced_chroma_key_def alpha_blend_def Let_def)
  have ro: "rect H W (astype_u8 res)" using res(2) by (simp add: astype_u8_def rect_ew1)
  have "astype_u8 res ! i ! j = px_map u8_of_f32 (res ! i ! j)"
    using res(2) assms by (simp add: astype_u8_def nth_ew1 [where H = H and W = W])
  then show ?thesis using out ro res(3) bgv q by simp
qed

text \<open>
  Claim C7. At every pixel of a well-formed frame, \<open>cv2.inRange\<close> on the converted frame
  yields 255 when the three HSV components lie in the inclusive range between the lower
  and the upper bound, component by component, and 0 otherwise; the mask assigned on
  line 39, which is that value as a float divided by 255, is exactly 1 in the first case
  and exactly 0 in the second, so every entry of the mask before the blur is 0 or 1.
\<close>

theorem C7_binary_threshold:
  assumes "rect H W frame" "i < H" "j < W"
  shows "inRange (cvtColor cvt frame) lo hi ! i ! j =
       (if ch0 lo \<le> uint (ch0 (cvt (frame ! i ! j))) \<and> uint (ch0 (cvt (frame ! i ! j))) \<le> ch0 hi
         \<and> ch1 lo \<le> uint (ch1 (cvt (frame ! i ! j))) \<and> uint (ch1 (cvt (frame ! i ! j))) \<le> ch1 hi
         \<and> ch2 lo \<le> uint (ch2 (cvt (frame ! i ! j))) \<and> uint (ch2 (cvt (frame ! i ! j))) \<le> ch2 hi
        then 255 else 0)
     \<and> binary_mask cvt frame lo hi ! i ! j =
       (if ch0 lo \<le> uint (ch0 (cvt (frame ! i ! j))) \<and> uint (ch0 (cvt (frame ! i ! j))) \<le> ch0 hi
         \<and> ch1 lo \<le> uint (ch1 (cvt (frame ! i ! j))) \<and> uint (ch1 (cvt (frame ! i ! j))) \<le> ch1 hi
         \<and> ch2 lo \<le> uint (ch2 (cvt (frame ! i ! j))) \<and> uint (ch2 (cvt (frame ! i ! j))) \<le> ch2 hi
        then 1 else 0)
     \<and> (binary_mask cvt frame lo hi ! i ! j = 0 \<or> binary_mask cvt frame lo hi ! i ! j = 1)"
proof -
  note n1 = nth_ew1 [where H = H and W = W and i = i and j = j]
  have ra: "rect H W (cvtColor cvt frame)" using assms by (simp add: cvtColor_def rect_ew1)
  have a: "cvtColor cvt frame ! i ! j = cvt (frame ! i ! j)"
    using assms by (simp add: cvtColor_def n1)
  have b: "inRange (cvtColor cvt frame) lo hi ! i ! j = inRange_px (cvt (frame ! i ! j)) lo hi"
    using ra assms by (simp add: inRange_def n1 a)
  show ?thesis
    using assms by (simp add: b binary_mask_nth [where H = H and W = W]) (simp add: inRange_px_def)
qed


text \<open>
  Claim C6. When frame and background have the same shape, at a pixel where the final mask
  is 0 the output pixel is the cast of the decontaminated pixel, and it is byte for byte
  the pixel of the input frame (the mask being below 0.05 there, line 51 leaves that pixel
  alone, with or without a green excess).
\<close>

theorem C6_zero_mask_keeps_pixel:
  assumes "rect H W frame" "rect H W bg" "i < H" "j < W"
    and "soft_mask cvt blur_at frame lo hi k ! i ! j = 0"
  shows "\<exists>out. advanced_chroma_key cvt blur_at frame bg lo hi k s = Inr out
     \<and> out ! i ! j = frame ! i ! j
     \<and> out ! i ! j =
         px_map u8_of_f32
           (decontaminate (astype_f32 frame) (soft_mask cvt blur_at frame lo hi k) s ! i ! j)"
proof -
  let ?m = "soft_mask cvt blur_at frame lo hi k"
  have rm: "rect H W ?m" using assms by (simp add: rect_soft_mask)
  obtain b g r where p: "frame ! i ! j = (b, g, r)" by (cases "frame ! i ! j")
  have fv: "astype_f32 frame ! i ! j = (f32_of_u8 b, f32_of_u8 g, f32_of_u8 r)"
    using assms p by (simp add: astype_f32_nth [where H = H and W = W])
  have d: "decontaminate (astype_f32 frame) ?m s ! i ! j = astype_f32 frame ! i ! j"
    using assms rm
    by (simp add: decontaminate_nth [where H = H and W = W] rect_astype_f32)
  show ?thesis
    using ack_nth [OF assms(1-4), of cvt blur_at lo hi k s] assms(5) d fv p
    by (auto simp: u8_roundtrip)
qed






lemma broadcast_dim_Inl_iff:
  "(broadcast_dim m n = Inl e) = (m \<noteq> n \<and> m \<noteq> 1 \<and> n \<noteq> 1)"
  by (cases e) (simp add: broadcast_dim_def)

lemma broadcast_dim_Inr:
  "broadcast_dim m n = Inr k \<Longrightarrow> (m = k \<or> m = 1) \<and> (n = k \<or> n = 1)"
  by (auto simp: broadcast_dim_def split: if_splits)

lemma broadcast_dim_pos: "broadcast_dim m n = Inr k \<Longrightarrow> 0 < m \<Longrightarrow> 0 < n \<Longrightarrow> 0 < k"
  by (auto simp: broadcast_dim_def split: if_splits)

lemma broadcast_shapes_Inl_iff:
  "(broadcast_shapes (H, W) (H', W') = Inl e)
     = (\<not> ((H = H' \<or> H = 1 \<or> H' = 1) \<and> (W = W' \<or> W = 1 \<or> W' = 1)))"
  by (cases e) (auto simp: broadcast_shapes_def broadcast_dim_def)

lemma broadcast_shapes_Inr:
  "broadcast_shapes (H, W) (H', W') = Inr (h, w) \<Longrightarrow>
     (H = h \<or> H = 1) \<and> (H' = h \<or> H' = 1) \<and> (W = w \<or> W = 1) \<and> (W' = w \<or> W' = 1)"
  by (auto simp: broadcast_shapes_def dest!: broadcast_dim_Inr split: sum.splits)

lemma broadcast_shapes_pos:
  "broadcast_shapes (H, W) (H', W') = Inr (h, w) \<Longrightarrow> 0 < H \<Longrightarrow> 0 < H' \<Longrightarrow> 0 < h"
  by (auto simp: broadcast_shapes_def dest: broadcast_dim_pos split: sum.splits)

lemma length_stretch: "length xs = n \<or> length xs = 1 \<Longrightarrow> length (stretch n xs) = n"
  by (cases xs; cases "tl xs") (auto simp: stretch_def split: list.splits)

lemma rect_broadcast_to:
  assumes "rect H W a" "H = h \<or> H = 1" "W = w \<or> W = 1"
  shows "rect h w (broadcast_to (h, w) a)"
proof -
  let ?rows = "map (stretch w) a"
  have len: "length ?rows = H" using assms(1) by (simp add: rect_def)
  have rows: "list_all (\<lambda>r. length r = w) ?rows"
  proof -
    have "length (stretch w r) = w" if "r \<in> set a" for r
    proof -
      have "length r = W" using that assms(1) by (simp add: rect_def list_all_iff)
      then have "length r = w \<or> length r = 1" using assms(3) by blast
      then show ?thesis by (rule length_stretch)
    qed
    then show ?thesis by (simp add: list_all_iff)
  qed
  show ?thesis
  proof (cases "H = h")
    case True
    then show ?thesis using len rows by (simp add: broadcast_to_def stretch_same rect_def)
  next
    case False
    then have "H = 1" using assms(2) by simp
    then obtain x where x: "?rows = [x]" using len by (cases ?rows) auto
    then have "length x = w" using rows by simp
    then show ?thesis using x by (simp add: broadcast_to_def stretch_def rect_def list_all_iff)
  qed
qed

lemma np_binop_broadcast:
  assumes "rect H W a" "rect H' W' b" "0 < H" "0 < H'"
  shows "((\<exists>e. np_binop f a b = Inl e)
           = (\<not> ((H = H' \<or> H = 1 \<or> H' = 1) \<and> (W = W' \<or> W = 1 \<or> W' = 1))))
       \<and> (\<forall>c. np_binop f a b = Inr c \<longrightarrow>
            (\<exists>h w. rect h w c \<and> 0 < h \<and> (H = h \<or> H = 1) \<and> (H' = h \<or> H' = 1)
               \<and> (W = w \<or> W = 1) \<and> (W' = w \<or> W' = 1)))"
proof -
  have sa: "shape a = (H, W)" using assms by (simp add: shape_rect)
  have sb: "shape b = (H', W')" using assms by (simp add: shape_rect)
  show ?thesis
  proof (cases "broadcast_shapes (H, W) (H', W')")
    case (Inl e)
    then have "\<not> ((H = H' \<or> H = 1 \<or> H' = 1) \<and> (W = W' \<or> W = 1 \<or> W' = 1))"
      using broadcast_shapes_Inl_iff [of H W H' W' e] by blast
    moreover have "np_binop f a b = Inl e" using Inl sa sb by (simp add: np_binop_def)
    ultimately show ?thesis by simp
  next
    case (Inr s)
    obtain h w where s: "s = (h, w)" by (cases s)
    have d: "(H = h \<or> H = 1) \<and> (H' = h \<or> H' = 1) \<and> (W = w \<or> W = 1) \<and> (W' = w \<or> W' = 1)"
      using Inr s broadcast_shapes_Inr by blast
    have hp: "0 < h" using Inr s assms(3,4) broadcast_shapes_pos by blast
    have ra: "rect h w (broadcast_to (h, w) a)" using assms(1) d by (simp add: rect_broadcast_to)
    have rb: "rect h w (broadcast_to (h, w) b)" using assms(2) d by (simp add: rect_broadcast_to)
    have rc: "rect h w (ew2 f (broadcast_to (h, w) a) (broadcast_to (h, w) b))"
      using ra rb by (rule rect_ew2)
    have ok: "(H = H' \<or> H = 1 \<or> H' = 1) \<and> (W = W' \<or> W = 1 \<or> W' = 1)"
      using d by auto
    have eq: "np_binop f a b = Inr (ew2 f (broadcast_to (h, w) a) (broadcast_to (h, w) b))"
      using Inr s sa sb by (simp add: np_binop_def)
    have l: "(\<exists>e. np_binop f a b = Inl e)
           = (\<not> ((H = H' \<or> H = 1 \<or> H' = 1) \<and> (W = W' \<or> W = 1 \<or> W' = 1)))"
      using eq ok by simp
    have r: "\<forall>c. np_binop f a b = Inr c \<longrightarrow>
            (\<exists>h w. rect h w c \<and> 0 < h \<and> (H = h \<or> H = 1) \<and> (H' = h \<or> H' = 1)
               \<and> (W = w \<or> W = 1) \<and> (W' = w \<or> W' = 1))"
    proof (intro allI impI)
      fix c assume "np_binop f a b = Inr c"
      then have "c = ew2 f (broadcast_to (h, w) a) (broadcast_to (h, w) b)" using eq by simp
      then have "rect h w c" using rc by simp
      then show "\<exists>h w. rect h w c \<and> 0 < h \<and> (H = h \<or> H = 1) \<and> (H' = h \<or> H' = 1)
               \<and> (W = w \<or> W = 1) \<and> (W' = w \<or> W' = 1)"
        using hp d by blast
    qed
    show ?thesis using l r by (rule conjI)
  qed
qed


lemma compat_sym:
  "((H' = H \<or> H' = 1 \<or> H = 1) \<and> (W' = W \<or> W' = 1 \<or> W = 1))
     = ((H = H' \<or> H = (1::nat) \<or> H' = 1) \<and> (W = W' \<or> W = (1::nat) \<or> W' = 1))"
  by auto

lemma compat_result:
  "H = h \<or> H = (1::nat) \<Longrightarrow> W = w \<or> W = (1::nat) \<Longrightarrow>
     (H = h \<or> H = 1 \<or> h = 1) \<and> (W = w \<or> W = 1 \<or> w = 1)"
  by auto

lemma blend_f32_broadcast:
  assumes "rect H W fns" "rect H' W' bgf" "rect H W m" "0 < H" "0 < H'"
  shows "(blend_f32 fns bgf m = Inl ValueError)
           = (\<not> ((H = H' \<or> H = 1 \<or> H' = 1) \<and> (W = W' \<or> W = 1 \<or> W' = 1)))"
proof -
  let ?m3 = "ew1 (\<lambda>x. (x, x, x)) m"
  let ?fg = "ew2 (px_map2 (*)) fns (ew1 (px_map (\<lambda>x. 1 - x)) ?m3)"
  define ok where "ok = ((H' = H \<or> H' = 1 \<or> H = 1) \<and> (W' = W \<or> W' = 1 \<or> W = 1))"
  have final: "((H = H' \<or> H = 1 \<or> H' = 1) \<and> (W = W' \<or> W = 1 \<or> W' = 1)) = ok"
    unfolding ok_def by (rule compat_sym [symmetric])
  have r3: "rect H W ?m3" using assms by (simp add: rect_ew1)
  have rf: "rect H W ?fg" using assms r3 by (simp add: rect_ew1 rect_ew2)
  have eqn: "blend_f32 fns bgf m =
      (case np_binop (px_map2 (*)) bgf ?m3 of
         Inl e \<Rightarrow> Inl e
       | Inr bgm \<Rightarrow> np_binop (px_map2 (+)) ?fg bgm)"
    by (simp add: blend_f32_def Let_def)
  note first = np_binop_broadcast [OF assms(2) r3 assms(5,4), where f = "px_map2 (*)"]
  have f1': "(\<exists>e. np_binop (px_map2 (*)) bgf ?m3 = Inl e)
      = (\<not> ((H' = H \<or> H' = 1 \<or> H = 1) \<and> (W' = W \<or> W' = 1 \<or> W = 1)))"
    using first by (rule conjunct1)
  have f1: "(\<exists>e. np_binop (px_map2 (*)) bgf ?m3 = Inl e) = (\<not> ok)"
    unfolding ok_def by (rule f1')
  have f2: "\<forall>c. np_binop (px_map2 (*)) bgf ?m3 = Inr c \<longrightarrow>
      (\<exists>h w. rect h w c \<and> 0 < h \<and> (H' = h \<or> H' = 1) \<and> (H = h \<or> H = 1)
         \<and> (W' = w \<or> W' = 1) \<and> (W = w \<or> W = 1))"
    using first by (rule conjunct2)
  have "(blend_f32 fns bgf m = Inl ValueError) = (\<not> ok)"
  proof (cases "np_binop (px_map2 (*)) bgf ?m3")
    case (Inl e)
    have e: "e = ValueError" by (cases e) simp
    have l: "blend_f32 fns bgf m = Inl ValueError" unfolding eqn Inl e by simp
    have "\<exists>e. np_binop (px_map2 (*)) bgf ?m3 = Inl e" using Inl by (rule exI)
    then have "\<not> ok" unfolding f1 .
    then show ?thesis using l by simp
  next
    case (Inr bgm)
    from f2 have "np_binop (px_map2 (*)) bgf ?m3 = Inr bgm \<longrightarrow>
      (\<exists>h w. rect h w bgm \<and> 0 < h \<and> (H' = h \<or> H' = 1) \<and> (H = h \<or> H = 1)
         \<and> (W' = w \<or> W' = 1) \<and> (W = w \<or> W = 1))" by (rule spec)
    then have "\<exists>h w. rect h w bgm \<and> 0 < h \<and> (H' = h \<or> H' = 1) \<and> (H = h \<or> H = 1)
         \<and> (W' = w \<or> W' = 1) \<and> (W = w \<or> W = 1)" using Inr by (rule mp)
    then obtain h w where hw: "rect h w bgm" "0 < h" "H = h \<or> H = 1" "W = w \<or> W = 1"
      by (elim exE conjE)
    have "\<not> (\<exists>e. np_binop (px_map2 (*)) bgf ?m3 = Inl e)" unfolding Inr by simp
    then have ok: ok unfolding f1 by simp
    have g1: "(\<exists>e. np_binop (px_map2 (+)) ?fg bgm = Inl e)
        = (\<not> ((H = h \<or> H = 1 \<or> h = 1) \<and> (W = w \<or> W = 1 \<or> w = 1)))"
      using np_binop_broadcast [OF rf hw(1) assms(4) hw(2), where f = "px_map2 (+)"]
      by (rule conjunct1)
    have "\<not> (\<exists>e. np_binop (px_map2 (+)) ?fg bgm = Inl e)"
      unfolding g1 using compat_result [OF hw(3,4)] by simp
    then have "np_binop (px_map2 (+)) ?fg bgm \<noteq> Inl ValueError" by simp
    then have "blend_f32 fns bgf m \<noteq> Inl ValueError" unfolding eqn Inr by simp
    then show ?thesis using ok by simp
  qed
  then show ?thesis unfolding final .
qed


lemma ack_blend:
  "advanced_chroma_key cvt blur_at frame bg lo hi k s =
     (case blend_f32 (decontaminate (astype_f32 frame) (soft_mask cvt blur_at frame lo hi k) s)
             (astype_f32 bg) (soft_mask cvt blur_at frame lo hi k) of
        Inl e \<Rightarrow> Inl e
      | Inr result \<Rightarrow> Inr (astype_u8 result))"
  by (simp add: advanced_chroma_key_def alpha_blend_def Let_def)

lemma ack_error_iff:
  assumes "rect H W frame" "rect H' W' bg" "0 < H" "0 < H'"
  shows "(advanced_chroma_key cvt blur_at frame bg lo hi k s = Inl ValueError)
           = (\<not> ((H = H' \<or> H = 1 \<or> H' = 1) \<and> (W = W' \<or> W = 1 \<or> W' = 1)))"
proof -
  let ?m = "soft_mask cvt blur_at frame lo hi k"
  let ?fns = "decontaminate (astype_f32 frame) ?m s"
  have rm: "rect H W ?m" using assms by (simp add: rect_soft_mask)
  have rf: "rect H W ?fns" using assms rm by (simp add: rect_decontaminate rect_astype_f32)
  have rb: "rect H' W' (astype_f32 bg)" using assms by (simp add: rect_astype_f32)
  have "(advanced_chroma_key cvt blur_at frame bg lo hi k s = Inl ValueError)
      = (blend_f32 ?fns (astype_f32 bg) ?m = Inl ValueError)"
  proof (cases "blend_f32 ?fns (astype_f32 bg) ?m")
    case (Inl e)
    then show ?thesis unfolding ack_blend by simp
  next
    case (Inr result)
    then show ?thesis unfolding ack_blend by simp
  qed
  also have "\<dots> = (\<not> ((H = H' \<or> H = 1 \<or> H' = 1) \<and> (W = W' \<or> W = 1 \<or> W' = 1)))"
    using rf rb rm assms(3,4) by (rule blend_f32_broadcast)
  finally show ?thesis .
qed

lemma ack_same_shape:
  assumes "rect H W frame" "rect H W bg"
  shows "\<exists>out. advanced_chroma_key cvt blur_at frame bg lo hi k s = Inr out \<and> rect H W out"
proof -
  let ?m = "soft_mask cvt blur_at frame lo hi k"
  let ?fns = "decontaminate (astype_f32 frame) ?m s"
  have rm: "rect H W ?m" using assms by (simp add: rect_soft_mask)
  have rf: "rect H W ?fns" using assms rm by (simp add: rect_decontaminate rect_astype_f32)
  have rb: "rect H W (astype_f32 bg)" using assms by (simp add: rect_astype_f32)
  let ?res = "ew2 (px_map2 (+))
            (ew2 (px_map2 (*)) ?fns (ew1 (px_map (\<lambda>x. 1 - x)) (ew1 (\<lambda>x. (x, x, x)) ?m)))
            (ew2 (px_map2 (*)) (astype_f32 bg) (ew1 (\<lambda>x. (x, x, x)) ?m))"
  have b: "blend_f32 ?fns (astype_f32 bg) ?m = Inr ?res"
    using rf rb rm by (rule blend_f32_same)
  have rr: "rect H W ?res" using rf rb rm by (simp add: rect_ew1 rect_ew2)
  have "advanced_chroma_key cvt blur_at frame bg lo hi k s = Inr (astype_u8 ?res)"
    by (simp only: advanced_chroma_key_def alpha_blend_def Let_def b sum.case)
  moreover have "rect H W (astype_u8 ?res)" using rr by (simp add: astype_u8_def rect_ew1)
  ultimately show ?thesis by blast
qed


lemma heap_run:
  assumes "cells h f = Some (U8 frame)" "cells h b = Some (U8 bg)"
    "f < next_ref h" "b < next_ref h"
  shows "advanced_chroma_key_heap cvt blur_at h f b lo hi k s =
     (case advanced_chroma_key cvt blur_at frame bg lo hi k s of
        Inl e \<Rightarrow>
          (Inl e,
           h\<lparr>cells := (cells h)(next_ref h \<mapsto>
                 F32 (decontaminate (astype_f32 frame) (soft_mask cvt blur_at frame lo hi k) s)),
             next_ref := Suc (next_ref h)\<rparr>)
      | Inr out \<Rightarrow>
          (Inr (Suc (next_ref h)),
           h\<lparr>cells := (cells h)(next_ref h \<mapsto>
                 F32 (decontaminate (astype_f32 frame) (soft_mask cvt blur_at frame lo hi k) s),
                 Suc (next_ref h) \<mapsto> U8 out),
             next_ref := Suc (Suc (next_ref h))\<rparr>))"
  using assms
  by (simp add: advanced_chroma_key_heap_def advanced_chroma_key_def alloc_def put_def
      get_u8_def get_f32_def decontaminate_def Let_def split: sum.splits)


lemma heap_outcome:
  assumes "cells h f = Some (U8 frame)" "cells h b = Some (U8 bg)"
    "f < next_ref h" "b < next_ref h"
  shows "outcome (advanced_chroma_key_heap cvt blur_at h f b lo hi k s) =
     (case advanced_chroma_key cvt blur_at frame bg lo hi k s of
        Inl e \<Rightarrow> Inl e
      | Inr out \<Rightarrow> Inr (Some (U8 out)))"
  unfolding heap_run [OF assms]
  by (cases "advanced_chroma_key cvt blur_at frame bg lo hi k s") (simp_all add: outcome_def)

lemma heap_fst:
  assumes "cells h f = Some (U8 frame)" "cells h b = Some (U8 bg)"
    "f < next_ref h" "b < next_ref h"
  shows "(fst (advanced_chroma_key_heap cvt blur_at h f b lo hi k s) = Inl e)
     = (advanced_chroma_key cvt blur_at frame bg lo hi k s = Inl e)"
  unfolding heap_run [OF assms]
  by (cases "advanced_chroma_key cvt blur_at frame bg lo hi k s") simp_all

lemma heap_old_cells:
  assumes "cells h f = Some (U8 frame)" "cells h b = Some (U8 bg)"
    "f < next_ref h" "b < next_ref h" "r < next_ref h"
  shows "cells (snd (advanced_chroma_key_heap cvt blur_at h f b lo hi k s)) r = cells h r"
  unfolding heap_run [OF assms(1-4)] using assms(5)
  by (cases "advanced_chroma_key cvt blur_at frame bg lo hi k s") simp_all

text \<open>
  Claim C3, as the code has it. The function checks no dimensions. For a frame of H rows and
  W columns and a background of H' rows and W' columns, neither empty, the call fails
  exactly when the two shapes cannot be broadcast together, that is when the heights
  differ and neither is 1, or the widths differ and neither is 1; the failure is numpy's
  ValueError, raised by the arithmetic of line 54. Otherwise the array with an extent of 1
  is broadcast and a frame is returned. In both cases every array that existed before the
  call is unchanged.
\<close>

theorem C3_error_iff_not_broadcastable:
  assumes "cells h f = Some (U8 frame)" "cells h b = Some (U8 bg)"
    "f < next_ref h" "b < next_ref h"
    "rect H W frame" "rect H' W' bg" "0 < H" "0 < H'"
  shows "((fst (advanced_chroma_key_heap cvt blur_at h f b lo hi k s) = Inl ValueError)
           = (\<not> ((H = H' \<or> H = 1 \<or> H' = 1) \<and> (W = W' \<or> W = 1 \<or> W' = 1))))
       \<and> (\<forall>r<next_ref h.
            cells (snd (advanced_chroma_key_heap cvt blur_at h f b lo hi k s)) r = cells h r)"
proof -
  have "(fst (advanced_chroma_key_heap cvt blur_at h f b lo hi k s) = Inl ValueError)
      = (advanced_chroma_key cvt blur_at frame bg lo hi k s = Inl ValueError)"
    using assms(1-4) by (rule heap_fst)
  also have "\<dots> = (\<not> ((H = H' \<or> H = 1 \<or> H' = 1) \<and> (W = W' \<or> W = 1 \<or> W' = 1)))"
    using assms(5-8) by (rule ack_error_iff)
  finally have a: "(fst (advanced_chroma_key_heap cvt blur_at h f b lo hi k s) = Inl ValueError)
      = (\<not> ((H = H' \<or> H = 1 \<or> H' = 1) \<and> (W = W' \<or> W = 1 \<or> W' = 1)))" .
  have b: "\<forall>r<next_ref h.
      cells (snd (advanced_chroma_key_heap cvt blur_at h f b lo hi k s)) r = cells h r"
    using heap_old_cells [OF assms(1-4)] by blast
  show ?thesis using a b by (rule conjI)
qed

text \<open>
  Claim C5. The function reads nothing but its arguments: run in two heaps, at whatever
  references, on frames with the same contents, backgrounds with the same contents and the
  same key parameters, the two calls have the same outcome, the same exception or result
  arrays equal byte for byte.
\<close>

theorem C5_deterministic:
  assumes "cells h1 f1 = Some (U8 frame)" "cells h1 b1 = Some (U8 bg)"
    "f1 < next_ref h1" "b1 < next_ref h1"
    "cells h2 f2 = Some (U8 frame)" "cells h2 b2 = Some (U8 bg)"
    "f2 < next_ref h2" "b2 < next_ref h2"
  shows "outcome (advanced_chroma_key_heap cvt blur_at h1 f1 b1 lo hi k s)
       = outcome (advanced_chroma_key_heap cvt blur_at h2 f2 b2 lo hi k s)"
  unfolding heap_outcome [OF assms(1-4)] heap_outcome [OF assms(5-8)] by (rule refl)

text \<open>
  Claim C9. For a frame and a background of the same shape H by W, the call returns a
  reference that was not allocated before the call, to a uint8 array of H rows and W
  columns, and every array that existed before the call, the frame and the background
  among them, holds after the call what it held before. The key parameters are values.
\<close>

theorem C9_inputs_not_mutated:
  assumes "cells h f = Some (U8 frame)" "cells h b = Some (U8 bg)"
    "f < next_ref h" "b < next_ref h" "rect H W frame" "rect H W bg"
  shows "\<exists>res h' out. advanced_chroma_key_heap cvt blur_at h f b lo hi k s = (Inr res, h')
     \<and> next_ref h \<le> res \<and> res \<noteq> f \<and> res \<noteq> b
     \<and> cells h' res = Some (U8 out) \<and> rect H W out
     \<and> cells h' f = Some (U8 frame) \<and> cells h' b = Some (U8 bg)
     \<and> (\<forall>r<next_ref h. cells h' r = cells h r)"
proof -
  obtain out where out: "advanced_chroma_key cvt blur_at frame bg lo hi k s = Inr out"
    "rect H W out"
    using ack_same_shape [OF assms(5,6)] by blast
  let ?h' = "h\<lparr>cells := (cells h)(next_ref h \<mapsto>
                 F32 (decontaminate (astype_f32 frame) (soft_mask cvt blur_at frame lo hi k) s),
                 Suc (next_ref h) \<mapsto> U8 out),
             next_ref := Suc (Suc (next_ref h))\<rparr>"
  have run: "advanced_chroma_key_heap cvt blur_at h f b lo hi k s = (Inr (Suc (next_ref h)), ?h')"
    unfolding heap_run [OF assms(1-4)] out(1) by simp
  have "next_ref h \<le> Suc (next_ref h)" "Suc (next_ref h) \<noteq> f" "Suc (next_ref h) \<noteq> b"
    "cells ?h' (Suc (next_ref h)) = Some (U8 out)"
    "cells ?h' f = Some (U8 frame)" "cells ?h' b = Some (U8 bg)"
    "\<forall>r<next_ref h. cells ?h' r = cells h r"
    using assms(1-4) by simp_all
  then show ?thesis using run out(2) by blast
qed


lemma upt3: "[0..<3] = [0, 1, 2]"
  by (simp add: upt_rec numeral_3_eq_3)

lemma upt2: "[0..<2] = [0, 1]"
  by (simp add: upt_rec numeral_2_eq_2)

lemma binary_mask_frame_ex:
  "binary_mask bgr2hsv frame_ex GREEN_LOWER GREEN_UPPER = [[1, 0, 0]]"
  by (simp add: binary_mask_def cvtColor_def inRange_def inRange_px_def ew1_def bgr2hsv_def
      f32_of_u8_def GREEN_LOWER_def GREEN_UPPER_def Let_def frame_ex_def)

lemma blur_frame_ex: "GaussianBlur gauss_blur_at [[1, 0, 0]] 3 = [[1 / 2, 1 / 4, 0]]"
  by (simp add: GaussianBlur_def gauss_blur_at_def gaussian_taps_def reflect101_def upt3)

lemma clip_frame_ex: "np_clip [[1 / 2, 1 / 4, 0]] 0 1 = [[1 / 2, 1 / 4, 0]]"
  by (simp add: np_clip_def ew1_def)

lemma erode_frame_ex: "erode_pass kernel [[1 / 2, 1 / 4, 0]] = [[1 / 4, 0, 0]]"
  by (simp add: erode_pass_def kernel_offsets_kernel window_def FLT_MAX_def upt3)

lemma dilate1_frame_ex: "dilate_pass kernel [[1 / 4, 0, 0]] = [[1 / 4, 1 / 4, 0]]"
  by (simp add: dilate_pass_def kernel_offsets_kernel window_def FLT_MAX_def upt3)

lemma dilate2_frame_ex: "dilate_pass kernel [[1 / 4, 1 / 4, 0]] = [[1 / 4, 1 / 4, 1 / 4]]"
  by (simp add: dilate_pass_def kernel_offsets_kernel window_def FLT_MAX_def upt3)

lemma soft_mask_frame_ex:
  "soft_mask bgr2hsv gauss_blur_at frame_ex GREEN_LOWER GREEN_UPPER 3 = [[1 / 4, 1 / 4, 1 / 4]]"
  by (simp only: soft_mask_def feathered_mask_def morph_cleanup_unfold binary_mask_frame_ex
      blur_frame_ex clip_frame_ex erode_frame_ex dilate1_frame_ex dilate2_frame_ex)

lemma astype_frame_ex: "astype_f32 frame_ex = [[(0, 255, 0), (0, 40, 0), (0, 40, 0)]]"
  by (simp add: astype_f32_def ew1_def f32_of_u8_def frame_ex_def)

lemma astype_bg_ex: "astype_f32 bg_ex = [[(0, 0, 0), (0, 0, 0), (0, 0, 0)]]"
  by (simp add: astype_f32_def ew1_def f32_of_u8_def bg_ex_def)

lemma decontaminate_frame_ex:
  "decontaminate [[(0, 255, 0), (0, 40, 0), (0, 40, 0)]] [[1 / 4, 1 / 4, 1 / 4]] s
     = [[(0, 255 * s, 0), (0, 40 * s, 0), (0, 40 * s, 0)]]"
  by (simp add: decontaminate_def assign_green_def spill_mask_def spill_value_def ew1_def ew2_def)

lemma blend_frame_ex:
  "alpha_blend [[(0, g0, 0), (0, g1, 0), (0, g2, 0)]] [[(0, 0, 0), (0, 0, 0), (0, 0, 0)]]
       [[1 / 4, 1 / 4, 1 / 4]]
     = Inr [[(0, u8_of_f32 (g0 * (3 / 4)), 0), (0, u8_of_f32 (g1 * (3 / 4)), 0),
             (0, u8_of_f32 (g2 * (3 / 4)), 0)]]"
  by (simp add: alpha_blend_def blend_f32_def np_binop_def shape_def broadcast_shapes_def
      broadcast_dim_def broadcast_to_def stretch_def ew1_def ew2_def astype_u8_def Let_def
      u8_of_f32_def trunc_def)

lemma ack_frame_ex:
  "advanced_chroma_key bgr2hsv gauss_blur_at frame_ex bg_ex GREEN_LOWER GREEN_UPPER 3 s
     = Inr [[(0, u8_of_f32 (255 * s * (3 / 4)), 0), (0, u8_of_f32 (40 * s * (3 / 4)), 0),
             (0, u8_of_f32 (40 * s * (3 / 4)), 0)]]"
  by (simp only: advanced_chroma_key_def Let_def soft_mask_frame_ex astype_frame_ex astype_bg_ex
      decontaminate_frame_ex blend_frame_ex)

lemma cast_values:
  "u8_of_f32 (255 * (1 / 4) * (3 / 4)) = 47" "u8_of_f32 (40 * (1 / 4) * (3 / 4)) = 7"
  "u8_of_f32 (255 * (3 / 4) * (3 / 4)) = 143" "u8_of_f32 (40 * (3 / 4) * (3 / 4)) = 22"
  by (simp_all add: u8_of_f32_def trunc_def)


lemma soft_mask_frame_red:
  "soft_mask bgr2hsv gauss_blur_at frame_red GREEN_LOWER GREEN_UPPER 1 = [[0]]"
proof -
  have a: "binary_mask bgr2hsv frame_red GREEN_LOWER GREEN_UPPER = [[0]]"
    by (simp add: binary_mask_def cvtColor_def inRange_def inRange_px_def ew1_def bgr2hsv_def
        f32_of_u8_def GREEN_LOWER_def GREEN_UPPER_def Let_def frame_red_def)
  have b: "GaussianBlur gauss_blur_at [[0]] 1 = [[0]]"
    by (simp add: GaussianBlur_def gauss_blur_at_def gaussian_taps_def reflect101_def)
  have c: "np_clip [[0]] 0 1 = [[0]]" by (simp add: np_clip_def ew1_def)
  have d: "erode_pass kernel [[0]] = [[0]]"
    by (simp add: erode_pass_def kernel_offsets_kernel window_def FLT_MAX_def)
  have e: "dilate_pass kernel [[0]] = [[0]]"
    by (simp add: dilate_pass_def kernel_offsets_kernel window_def FLT_MAX_def)
  show ?thesis
    by (simp only: soft_mask_def feathered_mask_def morph_cleanup_unfold a b c d e)
qed

lemma soft_mask_frame_green2:
  "soft_mask bgr2hsv gauss_blur_at frame_green2 GREEN_LOWER GREEN_UPPER 1 = [[1, 1]]"
proof -
  have a: "binary_mask bgr2hsv frame_green2 GREEN_LOWER GREEN_UPPER = [[1, 1]]"
    by (simp add: binary_mask_def cvtColor_def inRange_def inRange_px_def ew1_def bgr2hsv_def
        f32_of_u8_def GREEN_LOWER_def GREEN_UPPER_def Let_def frame_green2_def)
  have b: "GaussianBlur gauss_blur_at [[1, 1]] 1 = [[1, 1]]"
    by (simp add: GaussianBlur_def gauss_blur_at_def gaussian_taps_def reflect101_def upt2)
  have c: "np_clip [[1, 1]] 0 1 = [[1, 1]]" by (simp add: np_clip_def ew1_def)
  have d: "erode_pass kernel [[1, 1]] = [[1, 1]]"
    by (simp add: erode_pass_def kernel_offsets_kernel window_def FLT_MAX_def upt2)
  have e: "dilate_pass kernel [[1, 1]] = [[1, 1]]"
    by (simp add: dilate_pass_def kernel_offsets_kernel window_def FLT_MAX_def upt2)
  show ?thesis
    by (simp only: soft_mask_def feathered_mask_def morph_cleanup_unfold a b c d e)
qed

lemma ack_frame_green2:
  "advanced_chroma_key bgr2hsv gauss_blur_at frame_green2 bg_one GREEN_LOWER GREEN_UPPER 1 (7 / 10)
     = Inr [[(7, 8, 9), (7, 8, 9)]]"
proof -
  have a: "astype_f32 frame_green2 = [[(0, 255, 0), (0, 255, 0)]]"
    by (simp add: astype_f32_def ew1_def f32_of_u8_def frame_green2_def)
  have b: "astype_f32 bg_one = [[(7, 8, 9)]]"
    by (simp add: astype_f32_def ew1_def f32_of_u8_def bg_one_def)
  have c: "decontaminate [[(0, 255, 0), (0, 255, 0)]] [[1, 1]] (7 / 10)
      = [[(0, 357 / 2, 0), (0, 357 / 2, 0)]]"
    by (simp add: decontaminate_def assign_green_def spill_mask_def spill_value_def ew1_def
        ew2_def)
  have d: "alpha_blend [[(0, 357 / 2, 0), (0, 357 / 2, 0)]] [[(7, 8, 9)]] [[1, 1]]
      = Inr [[(7, 8, 9), (7, 8, 9)]]"
    by (simp add: alpha_blend_def blend_f32_def np_binop_def shape_def broadcast_shapes_def
        broadcast_dim_def broadcast_to_def stretch_def ew1_def ew2_def astype_u8_def Let_def
        u8_of_f32_def trunc_def)
  show ?thesis
    by (simp only: advanced_chroma_key_def Let_def soft_mask_frame_green2 a b c d)
qed

lemma rect_examples:
  "rect 1 3 frame_ex" "rect 1 3 bg_ex" "rect 1 1 frame_red" "rect 1 2 frame_green2"
  "rect 1 1 bg_one"
  by (simp_all add: rect_def frame_ex_def bg_ex_def frame_red_def frame_green2_def bg_one_def)

lemma heap_ex_cells:
  "cells heap_ex 0 = Some (U8 frame_ex)" "cells heap_ex 1 = Some (U8 bg_ex)"
  "cells heap_ex 2 = Some (U8 frame_green2)" "next_ref heap_ex = 3"
  by (simp_all add: heap_ex_def)

lemma heap_ex2_cells:
  "cells heap_ex2 4 = Some (U8 frame_ex)" "cells heap_ex2 0 = Some (U8 bg_ex)"
  "next_ref heap_ex2 = 5"
  by (simp_all add: heap_ex2_def)

text \<open>
  Claim C1, at the frame \<open>frame_ex\<close> with feather radius 3 and strength 1/4. The pixel in
  column 1 has green 40 above the red/blue average 0, and the final mask there is 1/4,
  above 0.05: the spill condition holds. Line 51 weights the average with
  \<open>1 - spill_suppress\<close> and the old green with \<open>spill_suppress\<close>, so the new green is
  0 * 3/4 + 40 * 1/4 = 10; the blend of the claim, with the weights the other way round,
  is 0 * 1/4 + 40 * 3/4 = 30.
\<close>

theorem C1_spill_weights_at_example:
  "ch1 (astype_f32 frame_ex ! 0 ! 1) = 40
   \<and> (ch0 (astype_f32 frame_ex ! 0 ! 1) + ch2 (astype_f32 frame_ex ! 0 ! 1)) / 2 = 0
   \<and> soft_mask bgr2hsv gauss_blur_at frame_ex GREEN_LOWER GREEN_UPPER 3 ! 0 ! 1 = 1 / 4
   \<and> ch1 (decontaminate (astype_f32 frame_ex)
             (soft_mask bgr2hsv gauss_blur_at frame_ex GREEN_LOWER GREEN_UPPER 3) (1 / 4) ! 0 ! 1)
       = 10
   \<and> (0::real) * (1 / 4) + 40 * (1 - 1 / 4) = 30"
  by (simp add: soft_mask_frame_ex astype_frame_ex decontaminate_frame_ex)

text \<open>
  Claim C2, at the same frame over a black background. With strength 1/4 the output green
  of the two dark pixels is 7, with strength 3/4 it is 22 (and 47 against 143 at the first
  pixel): the output green grows with the strength, where the claim has it shrink.
\<close>

theorem C2_green_grows_with_strength_at_example:
  "advanced_chroma_key bgr2hsv gauss_blur_at frame_ex bg_ex GREEN_LOWER GREEN_UPPER 3 (1 / 4)
     = Inr [[(0, 47, 0), (0, 7, 0), (0, 7, 0)]]
   \<and> advanced_chroma_key bgr2hsv gauss_blur_at frame_ex bg_ex GREEN_LOWER GREEN_UPPER 3 (3 / 4)
     = Inr [[(0, 143, 0), (0, 22, 0), (0, 22, 0)]]"
  by (simp only: ack_frame_ex cast_values)

text \<open>
  Claim C3 fails as stated: a frame of one row and two columns and a background of a
  single pixel differ in their dimensions, and the call returns a frame, the background
  pixel broadcast over both columns.
\<close>

theorem C3_counterexample:
  "shape frame_green2 \<noteq> shape bg_one
   \<and> advanced_chroma_key bgr2hsv gauss_blur_at frame_green2 bg_one GREEN_LOWER GREEN_UPPER 1
         (7 / 10)
       = Inr [[(7, 8, 9), (7, 8, 9)]]"
  by (simp add: ack_frame_green2) (simp add: shape_def frame_green2_def bg_one_def)



theorem C6_zero_mask_keeps_pixel_witness:
  "rect 1 1 frame_red \<and> rect 1 1 bg_one \<and> (0::nat) < 1
   \<and> soft_mask bgr2hsv gauss_blur_at frame_red GREEN_LOWER GREEN_UPPER 1 ! 0 ! 0 = 0
   \<and> (\<exists>out. advanced_chroma_key bgr2hsv gauss_blur_at frame_red bg_one GREEN_LOWER GREEN_UPPER 1
                (7 / 10) = Inr out
          \<and> out ! 0 ! 0 = (0, 0, 255))"
proof -
  have i: "(0::nat) < 1" by simp
  have m: "soft_mask bgr2hsv gauss_blur_at frame_red GREEN_LOWER GREEN_UPPER 1 ! 0 ! 0 = 0"
    by (simp add: soft_mask_frame_red)
  have v: "frame_red ! 0 ! 0 = (0, 0, 255)" by (simp add: frame_red_def)
  obtain out where
    "advanced_chroma_key bgr2hsv gauss_blur_at frame_red bg_one GREEN_LOWER GREEN_UPPER 1
        (7 / 10) = Inr out"
    "out ! 0 ! 0 = frame_red ! 0 ! 0"
    using C6_zero_mask_keeps_pixel [OF rect_examples(3,5) i i m, of "7 / 10"] by blast
  then have "\<exists>out. advanced_chroma_key bgr2hsv gauss_blur_at frame_red bg_one GREEN_LOWER
      GREEN_UPPER 1 (7 / 10) = Inr out \<and> out ! 0 ! 0 = (0, 0, 255)"
    using v by simp
  then show ?thesis using rect_examples(3,5) i m by simp
qed

theorem C7_binary_threshold_witness:
  "rect 1 3 frame_ex \<and> (0::nat) < 1 \<and> (1::nat) < 3
   \<and> inRange (cvtColor bgr2hsv frame_ex) GREEN_LOWER GREEN_UPPER ! 0 ! 1 = 0
   \<and> binary_mask bgr2hsv frame_ex GREEN_LOWER GREEN_UPPER ! 0 ! 1 = 0
   \<and> inRange (cvtColor bgr2hsv frame_ex) GREEN_LOWER GREEN_UPPER ! 0 ! 0 = 255
   \<and> binary_mask bgr2hsv frame_ex GREEN_LOWER GREEN_UPPER ! 0 ! 0 = 1"
proof -
  have i: "(0::nat) < 1" "(1::nat) < 3" "(0::nat) < 3" by simp_all
  have v: "bgr2hsv (frame_ex ! 0 ! Suc 0) = (60, 255, 40)"
    "bgr2hsv (frame_ex ! 0 ! 0) = (60, 255, 255)"
    by (simp_all add: frame_ex_def bgr2hsv_def Let_def)
  have a: "inRange (cvtColor bgr2hsv frame_ex) GREEN_LOWER GREEN_UPPER ! 0 ! 1 = 0
      \<and> binary_mask bgr2hsv frame_ex GREEN_LOWER GREEN_UPPER ! 0 ! 1 = 0"
    using C7_binary_threshold [OF rect_examples(1) i(1,2), of bgr2hsv GREEN_LOWER GREEN_UPPER]
    by (simp add: v GREEN_LOWER_def GREEN_UPPER_def)
  have b: "inRange (cvtColor bgr2hsv frame_ex) GREEN_LOWER GREEN_UPPER ! 0 ! 0 = 255
      \<and> binary_mask bgr2hsv frame_ex GREEN_LOWER GREEN_UPPER ! 0 ! 0 = 1"
    using C7_binary_threshold [OF rect_examples(1) i(1,3), of bgr2hsv GREEN_LOWER GREEN_UPPER]
    by (simp add: v GREEN_LOWER_def GREEN_UPPER_def)
  show ?thesis using a b rect_examples(1) i by simp
qed


theorem C3_error_iff_not_broadcastable_witness:
  "cells heap_ex 0 = Some (U8 frame_ex) \<and> cells heap_ex 2 = Some (U8 frame_green2)
   \<and> 0 < next_ref heap_ex \<and> 2 < next_ref heap_ex
   \<and> rect 1 3 frame_ex \<and> rect 1 2 frame_green2 \<and> (0::nat) < 1
   \<and> fst (advanced_chroma_key_heap bgr2hsv gauss_blur_at heap_ex 0 2 GREEN_LOWER GREEN_UPPER 1
           (7 / 10)) = Inl ValueError
   \<and> cells (snd (advanced_chroma_key_heap bgr2hsv gauss_blur_at heap_ex 0 2 GREEN_LOWER
           GREEN_UPPER 1 (7 / 10))) 0 = Some (U8 frame_ex)
   \<and> cells (snd (advanced_chroma_key_heap bgr2hsv gauss_blur_at heap_ex 0 2 GREEN_LOWER
           GREEN_UPPER 1 (7 / 10))) 2 = Some (U8 frame_green2)"
proof -
  have n: "0 < next_ref heap_ex" "2 < next_ref heap_ex" by (simp_all add: heap_ex_cells)
  have i: "(0::nat) < 1" by simp
  note th = C3_error_iff_not_broadcastable [OF heap_ex_cells(1,3) n rect_examples(1,4) i i,
      of bgr2hsv gauss_blur_at GREEN_LOWER GREEN_UPPER 1 "7 / 10"]
  have a: "fst (advanced_chroma_key_heap bgr2hsv gauss_blur_at heap_ex 0 2 GREEN_LOWER
      GREEN_UPPER 1 (7 / 10)) = Inl ValueError"
    using th by simp
  have b: "\<forall>r<next_ref heap_ex. cells (snd (advanced_chroma_key_heap bgr2hsv gauss_blur_at
      heap_ex 0 2 GREEN_LOWER GREEN_UPPER 1 (7 / 10))) r = cells heap_ex r"
    using th by (rule conjunct2)
  have c: "cells (snd (advanced_chroma_key_heap bgr2hsv gauss_blur_at heap_ex 0 2 GREEN_LOWER
           GREEN_UPPER 1 (7 / 10))) 0 = Some (U8 frame_ex)"
    using b n(1) heap_ex_cells(1) by simp
  have d: "cells (snd (advanced_chroma_key_heap bgr2hsv gauss_blur_at heap_ex 0 2 GREEN_LOWER
           GREEN_UPPER 1 (7 / 10))) 2 = Some (U8 frame_green2)"
    using b n(2) heap_ex_cells(3) by simp
  show ?thesis using heap_ex_cells(1,3) n rect_examples(1,4) i a c d by blast
qed

theorem C5_deterministic_witness:
  "cells heap_ex 0 = Some (U8 frame_ex) \<and> cells heap_ex 1 = Some (U8 bg_ex)
   \<and> 0 < next_ref heap_ex \<and> 1 < next_ref heap_ex
   \<and> cells heap_ex2 4 = Some (U8 frame_ex) \<and> cells heap_ex2 0 = Some (U8 bg_ex)
   \<and> 4 < next_ref heap_ex2 \<and> 0 < next_ref heap_ex2
   \<and> outcome (advanced_chroma_key_heap bgr2hsv gauss_blur_at heap_ex 0 1 GREEN_LOWER GREEN_UPPER
         3 (1 / 4))
     = outcome (advanced_chroma_key_heap bgr2hsv gauss_blur_at heap_ex2 4 0 GREEN_LOWER
         GREEN_UPPER 3 (1 / 4))"
proof -
  have n: "0 < next_ref heap_ex" "1 < next_ref heap_ex" by (simp_all add: heap_ex_cells)
  have n2: "4 < next_ref heap_ex2" "0 < next_ref heap_ex2" by (simp_all add: heap_ex2_cells)
  note th = C5_deterministic [OF heap_ex_cells(1,2) n heap_ex2_cells(1,2) n2,
      of bgr2hsv gauss_blur_at GREEN_LOWER GREEN_UPPER 3 "1 / 4"]
  show ?thesis using heap_ex_cells(1,2) n heap_ex2_cells(1,2) n2 th by blast
qed

theorem C9_inputs_not_mutated_witness:
  "cells heap_ex 0 = Some (U8 frame_ex) \<and> cells heap_ex 1 = Some (U8 bg_ex)
   \<and> 0 < next_ref heap_ex \<and> 1 < next_ref heap_ex \<and> rect 1 3 frame_ex \<and> rect 1 3 bg_ex
   \<and> (\<exists>res h' out.
         advanced_chroma_key_heap bgr2hsv gauss_blur_at heap_ex 0 1 GREEN_LOWER GREEN_UPPER 3
           (1 / 4) = (Inr res, h')
       \<and> next_ref heap_ex \<le> res \<and> cells h' res = Some (U8 out) \<and> rect 1 3 out
       \<and> cells h' 0 = Some (U8 frame_ex) \<and> cells h' 1 = Some (U8 bg_ex))"
proof -
  have n: "0 < next_ref heap_ex" "1 < next_ref heap_ex" by (simp_all add: heap_ex_cells)
  obtain res h' out where
    "advanced_chroma_key_heap bgr2hsv gauss_blur_at heap_ex 0 1 GREEN_LOWER GREEN_UPPER 3
       (1 / 4) = (Inr res, h')"
    "next_ref heap_ex \<le> res" "cells h' res = Some (U8 out)" "rect 1 3 out"
    "cells h' 0 = Some (U8 frame_ex)" "cells h' 1 = Some (U8 bg_ex)"
    using C9_inputs_not_mutated [OF heap_ex_cells(1,2) n rect_examples(1,2),
        of bgr2hsv gauss_blur_at GREEN_LOWER GREEN_UPPER 3 "1 / 4"]
    by blast
  then show ?thesis using heap_ex_cells(1,2) n rect_examples(1,2) by blast
qed

end
